theory Spec2Isabelle
  imports Main
begin

section \<open>The framework primitives used by \<open>libs/networks/resnet.py\<close>\<close>

text \<open>
  The module builds a computation graph out of layers of the tensor framework. A tensor
  is the expression that produced it: one constructor per framework primitive the module
  calls, holding the arguments the module passes. Arguments that every call of the module
  fixes to the same constant (\<open>use_bias=False\<close>, \<open>kernel_initializer="he_uniform"\<close>,
  the batch-norm momentum 0.997 and epsilon 1e-5, \<open>center\<close>, \<open>scale\<close>, \<open>fused\<close>)
  are part of the primitive and are not repeated. Python integers are \<open>int\<close>;
  the dimensions of a static shape are \<open>nat\<close>.
\<close>

datatype data_format = channels_last | channels_first

datatype padding = SAME | VALID

datatype tensor =
    Placeholder "nat list"
  | BatchNormalization int bool tensor
  | ReLU tensor
  | ZeroPadding2D "int \<times> int" data_format tensor
  | Conv2D int int int padding data_format tensor
  | MaxPool2D int int padding data_format tensor
  | Add tensor tensor
  | Identity string tensor

text \<open>
  \<open>Placeholder s\<close> is an input of static shape \<open>s\<close>;
  \<open>BatchNormalization axis training x\<close>; \<open>ZeroPadding2D padding data_format x\<close>;
  \<open>Conv2D filters kernel_size strides padding data_format x\<close>;
  \<open>MaxPool2D pool_size strides padding data_format x\<close>; \<open>Add x y\<close> is \<open>x + y\<close>;
  \<open>Identity name x\<close> is \<open>tf.identity(x, name)\<close>.
\<close>

subsection \<open>Static shape inference of the framework\<close>

text \<open>
  The framework validates every layer when it is added to the graph and raises there.
  The errors are the framework's own; the module defines none.
\<close>

datatype error =
    Rank_error
  | Axis_error
  | Negative_padding
  | Negative_dimension
  | Invalid_argument
  | Incompatible_shapes

definition then_shape :: "error + 'a \<Rightarrow> ('a \<Rightarrow> error + 'b) \<Rightarrow> error + 'b" where
  "then_shape r f = (case r of Inl e \<Rightarrow> Inl e | Inr a \<Rightarrow> f a)"

text \<open>A batch of images: \<open>[N, H, W, C]\<close> or \<open>[N, C, H, W]\<close>.\<close>

definition image_shape :: "data_format \<Rightarrow> nat \<Rightarrow> nat \<Rightarrow> nat \<Rightarrow> nat \<Rightarrow> nat list" where
  "image_shape df n h w c =
     (case df of channels_last \<Rightarrow> [n, h, w, c] | channels_first \<Rightarrow> [n, c, h, w])"

definition spatial_op ::
  "data_format \<Rightarrow> (nat \<Rightarrow> error + nat) \<Rightarrow> (nat \<Rightarrow> error + nat) \<Rightarrow> (nat \<Rightarrow> nat) \<Rightarrow>
     nat list \<Rightarrow> error + nat list" where
  "spatial_op df fh fw fc s =
     (case s of
        [n, a, b, c] \<Rightarrow>
          (case df of
             channels_last \<Rightarrow>
               then_shape (fh a) (\<lambda>h. then_shape (fw b) (\<lambda>w. Inr [n, h, w, fc c]))
           | channels_first \<Rightarrow>
               then_shape (fh b) (\<lambda>h. then_shape (fw c) (\<lambda>w. Inr [n, fc a, h, w])))
      | _ \<Rightarrow> Inl Rank_error)"

text \<open>
  Fused batch normalization takes a rank-4 input and normalizes axis 1 or 3; the shape
  is unchanged.
\<close>

definition batch_normalization_shape :: "int \<Rightarrow> nat list \<Rightarrow> error + nat list" where
  "batch_normalization_shape axis s =
     (if length s \<noteq> 4 then Inl Rank_error
      else if axis \<noteq> 1 \<and> axis \<noteq> 3 then Inl Axis_error
      else Inr s)"

text \<open>
  \<open>ZeroPadding2D\<close> given a tuple of two integers reads it as
  \<open>(symmetric_height_pad, symmetric_width_pad)\<close>: its four borders are
  \<open>((top, bottom), (left, right))\<close> with top = bottom and left = right.
\<close>

definition pad_borders :: "int \<times> int \<Rightarrow> (int \<times> int) \<times> (int \<times> int)" where
  "pad_borders p = ((fst p, fst p), (snd p, snd p))"

definition pad_extent :: "int \<times> int \<Rightarrow> nat \<Rightarrow> error + nat" where
  "pad_extent b n =
     (if fst b < 0 \<or> snd b < 0 then Inl Negative_padding
      else Inr (nat (int n + fst b + snd b)))"

definition zero_padding2d_shape :: "int \<times> int \<Rightarrow> data_format \<Rightarrow> nat list \<Rightarrow> error + nat list" where
  "zero_padding2d_shape p df s =
     spatial_op df (pad_extent (fst (pad_borders p))) (pad_extent (snd (pad_borders p)))
       (\<lambda>c. c) s"

text \<open>
  The extent of a windowed operation (convolution, pooling) along one spatial axis:
  \<open>SAME\<close> gives \<open>ceil(n / stride)\<close>; \<open>VALID\<close> gives
  \<open>floor((n - window) / stride) + 1\<close> and is refused when the window is larger than
  the input.
\<close>

definition window_extent :: "padding \<Rightarrow> int \<Rightarrow> int \<Rightarrow> nat \<Rightarrow> error + nat" where
  "window_extent p k s n =
     (if k < 1 \<or> s < 1 then Inl Invalid_argument
      else case p of
        SAME \<Rightarrow> Inr (nat ((int n + s - 1) div s))
      | VALID \<Rightarrow>
          if int n < k then Inl Negative_dimension
          else Inr (nat ((int n - k) div s + 1)))"

definition conv2d_shape ::
  "int \<Rightarrow> int \<Rightarrow> int \<Rightarrow> padding \<Rightarrow> data_format \<Rightarrow> nat list \<Rightarrow> error + nat list" where
  "conv2d_shape filters k s p df sh =
     (if filters < 1 then Inl Invalid_argument
      else spatial_op df (window_extent p k s) (window_extent p k s) (\<lambda>_. nat filters) sh)"

definition max_pool2d_shape ::
  "int \<Rightarrow> int \<Rightarrow> padding \<Rightarrow> data_format \<Rightarrow> nat list \<Rightarrow> error + nat list" where
  "max_pool2d_shape k s p df sh =
     spatial_op df (window_extent p k s) (window_extent p k s) (\<lambda>c. c) sh"

text \<open>Elementwise addition broadcasts: the shapes are aligned at their last axis.\<close>

fun broadcast_rev :: "nat list \<Rightarrow> nat list \<Rightarrow> error + nat list" where
  "broadcast_rev [] ys = Inr ys"
| "broadcast_rev (x # xs) [] = Inr (x # xs)"
| "broadcast_rev (x # xs) (y # ys) =
     (if x = y \<or> y = 1 then then_shape (broadcast_rev xs ys) (\<lambda>r. Inr (x # r))
      else if x = 1 then then_shape (broadcast_rev xs ys) (\<lambda>r. Inr (y # r))
      else Inl Incompatible_shapes)"

definition add_shape :: "nat list \<Rightarrow> nat list \<Rightarrow> error + nat list" where
  "add_shape s t = then_shape (broadcast_rev (rev s) (rev t)) (\<lambda>r. Inr (rev r))"

fun shape_of :: "tensor \<Rightarrow> error + nat list" where
  "shape_of (Placeholder s) = Inr s"
| "shape_of (BatchNormalization axis training x) =
     then_shape (shape_of x) (batch_normalization_shape axis)"
| "shape_of (ReLU x) = shape_of x"
| "shape_of (ZeroPadding2D p df x) = then_shape (shape_of x) (zero_padding2d_shape p df)"
| "shape_of (Conv2D filters k s p df x) =
     then_shape (shape_of x) (conv2d_shape filters k s p df)"
| "shape_of (MaxPool2D k s p df x) = then_shape (shape_of x) (max_pool2d_shape k s p df)"
| "shape_of (Add x y) =
     then_shape (shape_of x) (\<lambda>s. then_shape (shape_of y) (\<lambda>t. add_shape s t))"
| "shape_of (Identity name x) = shape_of x"

section \<open>The module\<close>

subsection \<open>Convenience functions\<close>

definition batch_norm :: "tensor \<Rightarrow> bool \<Rightarrow> data_format \<Rightarrow> tensor" where
  "batch_norm inputs training df =
     BatchNormalization (if df = channels_first then 1 else 3) training inputs"

definition fixed_padding :: "tensor \<Rightarrow> int \<Rightarrow> data_format \<Rightarrow> tensor" where
  "fixed_padding inputs kernel_size df =
     (let pad_total = kernel_size - 1;
          pad_beg = pad_total div 2;
          pad_end = pad_total - pad_beg
      in ZeroPadding2D (pad_beg, pad_end) df inputs)"

definition conv2d_fixed_padding :: "tensor \<Rightarrow> int \<Rightarrow> int \<Rightarrow> int \<Rightarrow> data_format \<Rightarrow> tensor" where
  "conv2d_fixed_padding inputs filters kernel_size strides df =
     (let inputs1 = (if strides > 1 then fixed_padding inputs kernel_size df else inputs)
      in Conv2D filters kernel_size strides (if strides = 1 then SAME else VALID) df inputs1)"

subsection \<open>Residual blocks\<close>

type_synonym block_fn =
  "tensor \<Rightarrow> int \<Rightarrow> bool \<Rightarrow> (tensor \<Rightarrow> tensor) option \<Rightarrow> int \<Rightarrow> data_format \<Rightarrow> tensor"

definition building_block_v2 :: block_fn where
  "building_block_v2 inputs filters training projection_shortcut strides df =
     (let shortcut = inputs;
          inputs1 = batch_norm inputs training df;
          inputs2 = ReLU inputs1;
          shortcut1 = (case projection_shortcut of None \<Rightarrow> shortcut | Some p \<Rightarrow> p inputs2);
          inputs3 = conv2d_fixed_padding inputs2 filters 3 strides df;
          inputs4 = batch_norm inputs3 training df;
          inputs5 = ReLU inputs4;
          inputs6 = conv2d_fixed_padding inputs5 filters 3 1 df
      in Add inputs6 shortcut1)"

definition bottleneck_block_v2 :: block_fn where
  "bottleneck_block_v2 inputs filters training projection_shortcut strides df =
     (let shortcut = inputs;
          inputs1 = batch_norm inputs training df;
          inputs2 = ReLU inputs1;
          shortcut1 = (case projection_shortcut of None \<Rightarrow> shortcut | Some p \<Rightarrow> p inputs2);
          inputs3 = conv2d_fixed_padding inputs2 filters 1 1 df;
          inputs4 = batch_norm inputs3 training df;
          inputs5 = ReLU inputs4;
          inputs6 = conv2d_fixed_padding inputs5 filters 3 strides df;
          inputs7 = batch_norm inputs6 training df;
          inputs8 = ReLU inputs7;
          inputs9 = conv2d_fixed_padding inputs8 (4 * filters) 1 1 df
      in Add inputs9 shortcut1)"

subsection \<open>One layer of blocks\<close>

text \<open>\<open>range(1, blocks)\<close> is the list \<open>[1..blocks - 1]\<close>.\<close>

definition block_layer ::
  "tensor \<Rightarrow> int \<Rightarrow> bool \<Rightarrow> block_fn \<Rightarrow> int \<Rightarrow> int \<Rightarrow> bool \<Rightarrow> string \<Rightarrow> data_format \<Rightarrow> tensor"
  where
  "block_layer inputs filters bottleneck block_fn blocks strides training name df =
     (let filters_out = (if bottleneck then filters * 4 else filters);
          projection_shortcut = (\<lambda>inputs. conv2d_fixed_padding inputs filters_out 1 strides df);
          inputs1 = block_fn inputs filters training (Some projection_shortcut) strides df;
          inputs2 = fold (\<lambda>_ inputs. block_fn inputs filters training None 1 df)
                      [1..blocks - 1] inputs1
      in Identity name inputs2)"

subsection \<open>The network\<close>

text \<open>Decimal formatting of a non-negative integer, as \<open>'%d'\<close> and \<open>'{}'\<close> do.\<close>

fun str_nat :: "nat \<Rightarrow> string" where
  "str_nat n =
     (if n < 10 then [''0123456789'' ! n]
      else str_nat (n div 10) @ [''0123456789'' ! (n mod 10)])"

declare str_nat.simps [simp del]

definition block_strides :: "int list" where
  "block_strides = [1, 2, 2, 2]"

text \<open>
  The body of the loop over \<open>enumerate([3, 4, 6, 3])\<close>; the state is the pair of the
  variables \<open>inputs\<close> and \<open>image_feature_map\<close>.
\<close>

definition resnet_v2_body ::
  "bool \<Rightarrow> data_format \<Rightarrow> nat \<times> int \<Rightarrow> tensor \<times> (string \<rightharpoonup> tensor) \<Rightarrow>
     tensor \<times> (string \<rightharpoonup> tensor)" where
  "resnet_v2_body training df = (\<lambda>(i, num_blocks) (inputs, image_feature_map).
     (let num_filters = 64 * 2 ^ i;
          inputs1 = block_layer inputs num_filters True bottleneck_block_v2 num_blocks
                      (block_strides ! i) training (''block_layer'' @ str_nat (i + 1)) df
      in (inputs1, image_feature_map(''C'' @ str_nat (i + 2) \<mapsto> inputs1))))"

definition resnet_v2_stem :: "tensor \<Rightarrow> data_format \<Rightarrow> tensor" where
  "resnet_v2_stem inputs df =
     (let inputs1 = conv2d_fixed_padding inputs 64 7 2 df;
          inputs2 = Identity ''initial_conv'' inputs1;
          inputs3 = MaxPool2D 3 2 SAME df inputs2;
          inputs4 = Identity ''initial_max_pool'' inputs3
      in inputs4)"

text \<open>
  The argument \<open>reuse\<close> only names the variable scope and does not reach the graph.
\<close>

definition resnet_v2 :: "tensor \<Rightarrow> bool \<Rightarrow> data_format \<Rightarrow> (string \<rightharpoonup> tensor)" where
  "resnet_v2 inputs training df =
     snd (fold (resnet_v2_body training df) (enumerate 0 [3, 4, 6, 3])
            (resnet_v2_stem inputs df, Map.empty))"

text \<open>
  A call of \<open>resnet_v2\<close> adds its layers to the graph one after the other, and the
  framework validates each layer as it is added: the call raises the framework's error
  at the first layer that is refused, and returns the feature map when none is. Every
  layer the call adds is part of the graph of the last stage, the final value of
  \<open>inputs\<close>, so the call returns exactly when that graph is accepted.
\<close>

definition resnet_v2_call ::
  "tensor \<Rightarrow> bool \<Rightarrow> data_format \<Rightarrow> error + (string \<rightharpoonup> tensor)" where
  "resnet_v2_call inputs training df =
     (let (inputs1, image_feature_map) =
            fold (resnet_v2_body training df) (enumerate 0 [3, 4, 6, 3])
              (resnet_v2_stem inputs df, Map.empty)
      in then_shape (shape_of inputs1) (\<lambda>_. Inr image_feature_map))"

section \<open>Notions used to state the properties\<close>

text \<open>
  The value of the variable \<open>inputs\<close> after the first \<open>n\<close> iterations of the
  loop of \<open>resnet_v2\<close>: the output of block layer \<open>n\<close> (the stem for \<open>n = 0\<close>).
\<close>

definition block_layer_output :: "tensor \<Rightarrow> bool \<Rightarrow> data_format \<Rightarrow> nat \<Rightarrow> tensor" where
  "block_layer_output inputs training df n =
     fst (fold (resnet_v2_body training df) (take n (enumerate 0 [3, 4, 6, 3]))
            (resnet_v2_stem inputs df, Map.empty))"

fun tensor_name :: "tensor \<Rightarrow> string option" where
  "tensor_name (Identity name x) = Some name"
| "tensor_name _ = None"

text \<open>
  The extent \<open>floor((n - 1) / s) + 1\<close> left by a stride \<open>s\<close>, and the channel
  count of a rank-4 shape.
\<close>

definition strided_extent :: "int \<Rightarrow> nat \<Rightarrow> nat" where
  "strided_extent s n = nat ((int n - 1) div s + 1)"

definition channel_count :: "data_format \<Rightarrow> nat list \<Rightarrow> nat option" where
  "channel_count df s =
     (if length s = 4 then Some (s ! (case df of channels_last \<Rightarrow> 3 | channels_first \<Rightarrow> 1))
      else None)"


text \<open>
  The four borders a padding layer adds, as the framework reads its argument.
\<close>

fun padding_borders :: "tensor \<Rightarrow> ((int \<times> int) \<times> (int \<times> int)) option" where
  "padding_borders (ZeroPadding2D p df x) = Some (pad_borders p)"
| "padding_borders _ = None"

text \<open>
  Pre-activation: a tensor is pre-activated when it is the ReLU of a batch
  normalization. \<open>convs_pre_activated t stop\<close> holds when every convolution of
  \<open>t\<close> that lies above the tensor \<open>stop\<close> reads a pre-activated tensor, through its
  explicit padding if it has one.
\<close>

fun pre_activated :: "tensor \<Rightarrow> bool" where
  "pre_activated (ReLU (BatchNormalization axis training x)) = True"
| "pre_activated _ = False"

fun unpadded :: "tensor \<Rightarrow> tensor" where
  "unpadded (ZeroPadding2D p df x) = x"
| "unpadded x = x"

primrec convs_pre_activated :: "tensor \<Rightarrow> tensor \<Rightarrow> bool" where
  "convs_pre_activated (Placeholder s) stop = True"
| "convs_pre_activated (BatchNormalization axis training x) stop =
     (BatchNormalization axis training x = stop \<or> convs_pre_activated x stop)"
| "convs_pre_activated (ReLU x) stop = (ReLU x = stop \<or> convs_pre_activated x stop)"
| "convs_pre_activated (ZeroPadding2D p df x) stop =
     (ZeroPadding2D p df x = stop \<or> convs_pre_activated x stop)"
| "convs_pre_activated (Conv2D filters k s p df x) stop =
     (Conv2D filters k s p df x = stop \<or>
      pre_activated (unpadded x) \<and> convs_pre_activated x stop)"
| "convs_pre_activated (MaxPool2D k s p df x) stop =
     (MaxPool2D k s p df x = stop \<or> convs_pre_activated x stop)"
| "convs_pre_activated (Add x y) stop =
     (Add x y = stop \<or> convs_pre_activated x stop \<and> convs_pre_activated y stop)"
| "convs_pre_activated (Identity name x) stop =
     (Identity name x = stop \<or> convs_pre_activated x stop)"

text \<open>
  The two operands of a sum: the convolutional path and the shortcut.
\<close>

fun summands :: "tensor \<Rightarrow> (tensor \<times> tensor) option" where
  "summands (Add x y) = Some (x, y)"
| "summands _ = None"

text \<open>
  The convolutional path of a stage. A stage ends with an identity that names its
  output; \<open>stage_body\<close> is the tensor under that name. From there the path runs
  back through the layers, taking the first operand (the convolutional path) at every
  sum, until it meets the named output of the stage before or a placeholder:
  \<open>path_end\<close> is where it stops, \<open>path_convs\<close> lists the convolutions on it as
  (filters, kernel size, strides) in the order they are applied, and
  \<open>path_shortcuts\<close> lists the second operand of every sum on it, one per residual
  block, in the same order.
\<close>

fun stage_body :: "tensor \<Rightarrow> tensor" where
  "stage_body (Identity name x) = x"
| "stage_body x = x"

primrec path_convs :: "tensor \<Rightarrow> (int \<times> int \<times> int) list" where
  "path_convs (Placeholder s) = []"
| "path_convs (BatchNormalization axis training x) = path_convs x"
| "path_convs (ReLU x) = path_convs x"
| "path_convs (ZeroPadding2D p df x) = path_convs x"
| "path_convs (Conv2D filters k s p df x) = path_convs x @ [(filters, k, s)]"
| "path_convs (MaxPool2D k s p df x) = path_convs x"
| "path_convs (Add x y) = path_convs x"
| "path_convs (Identity name x) = []"

primrec path_shortcuts :: "tensor \<Rightarrow> tensor list" where
  "path_shortcuts (Placeholder s) = []"
| "path_shortcuts (BatchNormalization axis training x) = path_shortcuts x"
| "path_shortcuts (ReLU x) = path_shortcuts x"
| "path_shortcuts (ZeroPadding2D p df x) = path_shortcuts x"
| "path_shortcuts (Conv2D filters k s p df x) = path_shortcuts x"
| "path_shortcuts (MaxPool2D k s p df x) = path_shortcuts x"
| "path_shortcuts (Add x y) = path_shortcuts x @ [y]"
| "path_shortcuts (Identity name x) = []"

primrec path_end :: "tensor \<Rightarrow> tensor" where
  "path_end (Placeholder s) = Placeholder s"
| "path_end (BatchNormalization axis training x) = path_end x"
| "path_end (ReLU x) = path_end x"
| "path_end (ZeroPadding2D p df x) = path_end x"
| "path_end (Conv2D filters k s p df x) = path_end x"
| "path_end (MaxPool2D k s p df x) = path_end x"
| "path_end (Add x y) = path_end x"
| "path_end (Identity name x) = Identity name x"

section \<open>The loop of \<open>resnet_v2\<close>, unrolled\<close>

lemma str_nat_digit: "n < 10 \<Longrightarrow> str_nat n = [''0123456789'' ! n]"
  by (simp add: str_nat.simps [of n])

lemma str_nat_Suc:
  "str_nat (Suc 0) = ''1''"
  "str_nat (Suc (Suc 0)) = ''2''"
  "str_nat (Suc (Suc (Suc 0))) = ''3''"
  "str_nat (Suc (Suc (Suc (Suc 0)))) = ''4''"
  "str_nat (Suc (Suc (Suc (Suc (Suc 0))))) = ''5''"
  by (simp_all add: str_nat_digit)

lemma str_nat_num:
  "str_nat 1 = ''1''" "str_nat 2 = ''2''" "str_nat 3 = ''3''" "str_nat 4 = ''4''"
  "str_nat 5 = ''5''"
  by (simp_all add: str_nat_digit)

lemma resnet_v2_unfold:
  "resnet_v2 inputs training df =
     (let c2 = block_layer (resnet_v2_stem inputs df) 64 True bottleneck_block_v2 3 1
                 training ''block_layer1'' df;
          c3 = block_layer c2 128 True bottleneck_block_v2 4 2 training ''block_layer2'' df;
          c4 = block_layer c3 256 True bottleneck_block_v2 6 2 training ''block_layer3'' df;
          c5 = block_layer c4 512 True bottleneck_block_v2 3 2 training ''block_layer4'' df
      in [''C2'' \<mapsto> c2, ''C3'' \<mapsto> c3, ''C4'' \<mapsto> c4, ''C5'' \<mapsto> c5])"
  by (simp add: resnet_v2_def resnet_v2_body_def block_strides_def str_nat_Suc Let_def)

lemma block_layer_output_unfold:
  "block_layer_output inputs training df 0 = resnet_v2_stem inputs df"
  "block_layer_output inputs training df (Suc 0) =
     block_layer (resnet_v2_stem inputs df) 64 True bottleneck_block_v2 3 1 training
       ''block_layer1'' df"
  "block_layer_output inputs training df 2 =
     block_layer (block_layer_output inputs training df (Suc 0)) 128 True bottleneck_block_v2
       4 2 training ''block_layer2'' df"
  "block_layer_output inputs training df 3 =
     block_layer (block_layer_output inputs training df 2) 256 True bottleneck_block_v2
       6 2 training ''block_layer3'' df"
  "block_layer_output inputs training df 4 =
     block_layer (block_layer_output inputs training df 3) 512 True bottleneck_block_v2
       3 2 training ''block_layer4'' df"
  by (simp_all add: block_layer_output_def resnet_v2_body_def block_strides_def str_nat_Suc
        Let_def numeral_2_eq_2 numeral_3_eq_3 eval_nat_numeral)

lemma block_layer_name:
  "tensor_name (block_layer x f b fn n s tr name df) = Some name"
  by (simp add: block_layer_def Let_def)

section \<open>Shapes of the convolution wrapper\<close>

lemma then_shape_simps [simp]:
  "then_shape (Inr a) f = f a"
  "then_shape (Inl e) f = Inl e"
  by (simp_all add: then_shape_def)

lemma spatial_op_image:
  "spatial_op df fh fw fc (image_shape df n h w c) =
     then_shape (fh h) (\<lambda>h'. then_shape (fw w) (\<lambda>w'. Inr (image_shape df n h' w' (fc c))))"
  by (cases df) (simp_all add: spatial_op_def image_shape_def)

lemma length_image_shape [simp]: "length (image_shape df n h w c) = 4"
  by (cases df) (simp_all add: image_shape_def)

lemma broadcast_rev_same: "broadcast_rev xs xs = Inr xs"
  by (induction xs) simp_all

lemma add_shape_same [simp]: "add_shape s s = Inr s"
  by (simp add: add_shape_def broadcast_rev_same)

lemma shape_batch_norm:
  "shape_of x = Inr (image_shape df n h w c) \<Longrightarrow>
   shape_of (batch_norm x tr df) = Inr (image_shape df n h w c)"
  by (simp add: batch_norm_def batch_normalization_shape_def)

lemma shape_fixed_padding:
  assumes "shape_of x = Inr (image_shape df n h w c)" and "1 \<le> k"
  shows "shape_of (fixed_padding x k df) =
           Inr (image_shape df n (nat (int h + 2 * ((k - 1) div 2)))
                  (nat (int w + 2 * (k - 1 - (k - 1) div 2))) c)"
proof -
  have "0 \<le> (k - 1) div 2" "0 \<le> k - 1 - (k - 1) div 2" using assms(2) by auto
  then show ?thesis using assms(1)
    by (simp add: fixed_padding_def Let_def zero_padding2d_shape_def pad_borders_def
          pad_extent_def spatial_op_image algebra_simps)
qed

lemma shape_fixed_padding_odd:
  assumes "shape_of x = Inr (image_shape df n h w c)" and "1 \<le> k" and "odd k"
  shows "shape_of (fixed_padding x k df) =
           Inr (image_shape df n (nat (int h + k - 1)) (nat (int w + k - 1)) c)"
proof -
  have "int h + 2 * ((k - 1) div 2) = int h + k - 1" using assms(3) by presburger
  moreover have "int w + 2 * (k - 1 - (k - 1) div 2) = int w + k - 1"
    using assms(3) by presburger
  ultimately show ?thesis using shape_fixed_padding [OF assms(1,2)]
    by (simp add: add_diff_eq)
qed

lemma shape_conv_stride1:
  assumes "shape_of x = Inr (image_shape df n h w c)" and "1 \<le> k" and "1 \<le> f"
  shows "shape_of (conv2d_fixed_padding x f k 1 df) = Inr (image_shape df n h w (nat f))"
  using assms
  by (simp add: conv2d_fixed_padding_def conv2d_shape_def spatial_op_image window_extent_def)

lemma shape_conv_strided:
  assumes "shape_of x = Inr (image_shape df n h w c)" and "1 \<le> k" and "odd k" and "1 < s"
    and "1 \<le> f" and "1 \<le> h" and "1 \<le> w"
  shows "shape_of (conv2d_fixed_padding x f k s df) =
           Inr (image_shape df n (nat ((int h - 1) div s + 1)) (nat ((int w - 1) div s + 1))
                  (nat f))"
proof -
  have p: "shape_of (fixed_padding x k df) =
           Inr (image_shape df n (nat (int h + k - 1)) (nat (int w + k - 1)) c)"
    by (rule shape_fixed_padding_odd [OF assms(1,2,3)])
  have "int h + k - 1 - k = int h - 1" "int w + k - 1 - k = int w - 1" by simp_all
  then show ?thesis using assms(2,4,5,6,7) p
    by (simp add: conv2d_fixed_padding_def conv2d_shape_def spatial_op_image window_extent_def)
qed

lemma strided_extent_1 [simp]: "1 \<le> n \<Longrightarrow> strided_extent 1 n = n"
  by (simp add: strided_extent_def)

lemma strided_extent_pos: "1 \<le> s \<Longrightarrow> 1 \<le> n \<Longrightarrow> 1 \<le> strided_extent s n"
proof -
  assume "1 \<le> s" "1 \<le> n"
  then have "0 \<le> (int n - 1) div s" by (simp add: pos_imp_zdiv_nonneg_iff)
  then show ?thesis by (simp add: strided_extent_def)
qed

lemma shape_conv:
  assumes "shape_of x = Inr (image_shape df n h w c)" and "1 \<le> k" and "odd k" and "1 \<le> s"
    and "1 \<le> f" and "1 \<le> h" and "1 \<le> w"
  shows "shape_of (conv2d_fixed_padding x f k s df) =
           Inr (image_shape df n (strided_extent s h) (strided_extent s w) (nat f))"
proof (cases "s = 1")
  case True
  then show ?thesis using shape_conv_stride1 [OF assms(1,2,5)] assms(6,7) by simp
next
  case False
  then have "1 < s" using assms(4) by simp
  then show ?thesis using shape_conv_strided [OF assms(1,2,3) _ assms(5,6,7)]
    by (simp add: strided_extent_def)
qed

lemma ceiling_div:
  assumes "1 < (s::int)"
  shows "s * ((m - 1) div s) < m \<and> m \<le> s * ((m - 1) div s + 1)"
proof -
  have eq: "s * ((m - 1) div s) + (m - 1) mod s = m - 1" by simp
  have "0 \<le> (m - 1) mod s" "(m - 1) mod s < s" using assms by simp_all
  with eq have "s * ((m - 1) div s) \<le> m - 1" "m - 1 < s * ((m - 1) div s) + s" by linarith+
  then show ?thesis by (simp add: distrib_left)
qed

text \<open>
  Claim C10. For every stride \<open>s > 1\<close>, odd kernel size \<open>k \<ge> 1\<close> and
  spatial extents \<open>h, w \<ge> 1\<close>, the explicit padding of \<open>conv2d_fixed_padding\<close>
  brings each extent \<open>n\<close> to \<open>n + k - 1\<close> and the VALID convolution leaves
  \<open>floor((n + k - 1 - k) / s) + 1 = floor((n - 1) / s) + 1\<close>, which is
  \<open>ceil(n / s)\<close>: the least \<open>r\<close> with \<open>n \<le> s * r\<close>, whatever the remainder of
  \<open>n\<close> modulo \<open>s\<close>. The filter count is positive, as the framework requires.
\<close>

theorem conv2d_fixed_padding_extent:
  assumes "shape_of x = Inr (image_shape df n h w c)"
    and "1 < s" and "odd k" and "1 \<le> k" and "1 \<le> h" and "1 \<le> w" and "1 \<le> f"
  shows "shape_of (fixed_padding x k df) =
           Inr (image_shape df n (nat (int h + k - 1)) (nat (int w + k - 1)) c) \<and>
         shape_of (conv2d_fixed_padding x f k s df) =
           Inr (image_shape df n (nat ((int h - 1) div s + 1)) (nat ((int w - 1) div s + 1))
                  (nat f)) \<and>
         (int h - 1) div s + 1 = (int h + k - 1 - k) div s + 1 \<and>
         (int w - 1) div s + 1 = (int w + k - 1 - k) div s + 1 \<and>
         s * ((int h - 1) div s + 1 - 1) < int h \<and> int h \<le> s * ((int h - 1) div s + 1) \<and>
         s * ((int w - 1) div s + 1 - 1) < int w \<and> int w \<le> s * ((int w - 1) div s + 1)"
  using shape_fixed_padding_odd [OF assms(1,4,3)]
    shape_conv_strided [OF assms(1,4,3,2,7,5,6)]
    ceiling_div [OF assms(2), of "int h"] ceiling_div [OF assms(2), of "int w"]
  by simp

theorem conv2d_fixed_padding_extent_witness:
  "shape_of (fixed_padding (Placeholder [1, 7, 10, 3]) 3 channels_last) = Inr [1, 9, 12, 3] \<and>
   shape_of (conv2d_fixed_padding (Placeholder [1, 7, 10, 3]) 16 3 2 channels_last) =
     Inr [1, 4, 5, 16]"
  using conv2d_fixed_padding_extent [of "Placeholder [1, 7, 10, 3]" channels_last 1 7 10 3 2 3 16]
  by (simp add: image_shape_def)

text \<open>
  Claim C8. \<open>fixed_padding\<close> with \<open>kernel_size = 1\<close> pads no border and leaves
  the input's shape as it is; for an odd \<open>k > 1\<close> it adds \<open>(k - 1) / 2\<close> on each
  of the four borders, so each spatial extent grows by \<open>k - 1\<close>; for an even \<open>k\<close>
  the pair \<open>(pad_beg, pad_end)\<close> is read as (symmetric height pad, symmetric width
  pad), so the height grows by \<open>2 * ((k - 1) // 2) = k - 2\<close> and the width by
  \<open>2 * (k - 1 - (k - 1) // 2) = k\<close>.
\<close>

theorem fixed_padding_borders:
  assumes "shape_of x = Inr (image_shape df n h w c)" and "1 \<le> k"
  shows "(k = 1 \<longrightarrow>
            padding_borders (fixed_padding x k df) = Some ((0, 0), (0, 0)) \<and>
            shape_of (fixed_padding x k df) = Inr (image_shape df n h w c)) \<and>
         (odd k \<and> 1 < k \<longrightarrow>
            padding_borders (fixed_padding x k df) =
              Some (((k - 1) div 2, (k - 1) div 2), ((k - 1) div 2, (k - 1) div 2)) \<and>
            shape_of (fixed_padding x k df) =
              Inr (image_shape df n (nat (int h + (k - 1))) (nat (int w + (k - 1))) c)) \<and>
         (even k \<longrightarrow>
            padding_borders (fixed_padding x k df) =
              Some (((k - 1) div 2, (k - 1) div 2),
                    (k - 1 - (k - 1) div 2, k - 1 - (k - 1) div 2)) \<and>
            2 * ((k - 1) div 2) = k - 2 \<and> 2 * (k - 1 - (k - 1) div 2) = k \<and>
            shape_of (fixed_padding x k df) =
              Inr (image_shape df n (nat (int h + (k - 2))) (nat (int w + k)) c))"
proof (intro conjI impI)
  assume "k = 1"
  then show "padding_borders (fixed_padding x k df) = Some ((0, 0), (0, 0))"
    by (simp add: fixed_padding_def pad_borders_def)
  show "shape_of (fixed_padding x k df) = Inr (image_shape df n h w c)"
    using shape_fixed_padding [OF assms] \<open>k = 1\<close> by simp
next
  assume o: "odd k \<and> 1 < k"
  then have "k - 1 - (k - 1) div 2 = (k - 1) div 2" by presburger
  then show "padding_borders (fixed_padding x k df) =
      Some (((k - 1) div 2, (k - 1) div 2), ((k - 1) div 2, (k - 1) div 2))"
    by (simp add: fixed_padding_def pad_borders_def Let_def)
  show "shape_of (fixed_padding x k df) =
      Inr (image_shape df n (nat (int h + (k - 1))) (nat (int w + (k - 1))) c)"
    using shape_fixed_padding_odd [OF assms] o by (simp add: add_diff_eq)
next
  assume e: "even k"
  show "padding_borders (fixed_padding x k df) =
      Some (((k - 1) div 2, (k - 1) div 2), (k - 1 - (k - 1) div 2, k - 1 - (k - 1) div 2))"
    by (simp add: fixed_padding_def pad_borders_def Let_def)
  show e1: "2 * ((k - 1) div 2) = k - 2" using e by presburger
  show e2: "2 * (k - 1 - (k - 1) div 2) = k" using e by presburger
  show "shape_of (fixed_padding x k df) =
      Inr (image_shape df n (nat (int h + (k - 2))) (nat (int w + k)) c)"
    using shape_fixed_padding [OF assms] by (simp only: e1 e2)
qed

theorem fixed_padding_borders_witness:
  "shape_of (fixed_padding (Placeholder [1, 8, 8, 3]) 1 channels_last) = Inr [1, 8, 8, 3] \<and>
   padding_borders (fixed_padding (Placeholder [1, 8, 8, 3]) 3 channels_last) =
     Some ((1, 1), (1, 1)) \<and>
   shape_of (fixed_padding (Placeholder [1, 8, 8, 3]) 3 channels_last) = Inr [1, 10, 10, 3] \<and>
   padding_borders (fixed_padding (Placeholder [1, 8, 8, 3]) 4 channels_last) =
     Some ((1, 1), (2, 2)) \<and>
   shape_of (fixed_padding (Placeholder [1, 8, 8, 3]) 4 channels_last) = Inr [1, 10, 12, 3]"
  using fixed_padding_borders [of "Placeholder [1, 8, 8, 3]" channels_last 1 8 8 3 1]
    fixed_padding_borders [of "Placeholder [1, 8, 8, 3]" channels_last 1 8 8 3 3]
    fixed_padding_borders [of "Placeholder [1, 8, 8, 3]" channels_last 1 8 8 3 4]
  by (simp add: image_shape_def)

text \<open>
  Claim C4. The claim has \<open>conv2d_fixed_padding\<close> pad, for strides above 1, a
  total of \<open>kernel_size - 1\<close> along each spatial axis, \<open>(kernel_size - 1) // 2\<close>
  before and the rest after. The module computes \<open>pad_beg\<close> and \<open>pad_end\<close> so,
  but hands them to the padding layer as one pair, which the layer reads as (height pad,
  width pad). With \<open>kernel_size = 2\<close> and \<open>strides = 2\<close> on an 8 x 8 input the
  height gets no padding and the width one column on each side: the padded input is
  8 x 10 and the output 4 x 5, where the claim's padding gives 9 x 9 and 4 x 4.
\<close>

theorem conv2d_fixed_padding_even_kernel:
  "conv2d_fixed_padding (Placeholder [1, 8, 8, 3]) 64 2 2 channels_last =
     Conv2D 64 2 2 VALID channels_last
       (ZeroPadding2D (0, 1) channels_last (Placeholder [1, 8, 8, 3])) \<and>
   padding_borders (fixed_padding (Placeholder [1, 8, 8, 3]) 2 channels_last) =
     Some ((0, 0), (1, 1)) \<and>
   shape_of (fixed_padding (Placeholder [1, 8, 8, 3]) 2 channels_last) = Inr [1, 8, 10, 3] \<and>
   shape_of (conv2d_fixed_padding (Placeholder [1, 8, 8, 3]) 64 2 2 channels_last) =
     Inr [1, 4, 5, 64]"
  by (simp add: conv2d_fixed_padding_def fixed_padding_def pad_borders_def Let_def
        zero_padding2d_shape_def spatial_op_def pad_extent_def conv2d_shape_def
        window_extent_def)

section \<open>Shapes of the blocks, the stages and the network\<close>

lemma shape_bottleneck_projection:
  assumes x: "shape_of x = Inr (image_shape df n h w c)" and f: "1 \<le> f" and s: "1 \<le> s"
    and h: "1 \<le> h" and w: "1 \<le> w"
  shows "shape_of (bottleneck_block_v2 x f tr
            (Some (\<lambda>y. conv2d_fixed_padding y (f * 4) 1 s df)) s df) =
           Inr (image_shape df n (strided_extent s h) (strided_extent s w) (nat (4 * f)))"
proof -
  let ?a = "ReLU (batch_norm x tr df)"
  have a: "shape_of ?a = Inr (image_shape df n h w c)"
    using shape_batch_norm [OF x] by simp
  have sc: "shape_of (conv2d_fixed_padding ?a (f * 4) 1 s df) =
      Inr (image_shape df n (strided_extent s h) (strided_extent s w) (nat (f * 4)))"
    using shape_conv [OF a _ _ s _ h w, of 1 "f * 4"] f by simp
  let ?b = "ReLU (batch_norm (conv2d_fixed_padding ?a f 1 1 df) tr df)"
  have "shape_of (conv2d_fixed_padding ?a f 1 1 df) = Inr (image_shape df n h w (nat f))"
    using shape_conv_stride1 [OF a _ f, of 1] by simp
  then have b: "shape_of ?b = Inr (image_shape df n h w (nat f))"
    using shape_batch_norm by simp
  let ?c = "ReLU (batch_norm (conv2d_fixed_padding ?b f 3 s df) tr df)"
  have "shape_of (conv2d_fixed_padding ?b f 3 s df) =
      Inr (image_shape df n (strided_extent s h) (strided_extent s w) (nat f))"
    using shape_conv [OF b _ _ s f h w, of 3] by simp
  then have c: "shape_of ?c =
      Inr (image_shape df n (strided_extent s h) (strided_extent s w) (nat f))"
    using shape_batch_norm by simp
  have d: "shape_of (conv2d_fixed_padding ?c (4 * f) 1 1 df) =
      Inr (image_shape df n (strided_extent s h) (strided_extent s w) (nat (4 * f)))"
    using shape_conv_stride1 [OF c, of 1 "4 * f"] f by simp
  show ?thesis using sc d
    by (simp add: bottleneck_block_v2_def Let_def mult.commute)
qed

lemma shape_bottleneck_identity:
  assumes x: "shape_of x = Inr (image_shape df n h w (nat (4 * f)))" and f: "1 \<le> f"
    and h: "1 \<le> h" and w: "1 \<le> w"
  shows "shape_of (bottleneck_block_v2 x f tr None 1 df) =
           Inr (image_shape df n h w (nat (4 * f)))"
proof -
  let ?a = "ReLU (batch_norm x tr df)"
  have a: "shape_of ?a = Inr (image_shape df n h w (nat (4 * f)))"
    using shape_batch_norm [OF x] by simp
  let ?b = "ReLU (batch_norm (conv2d_fixed_padding ?a f 1 1 df) tr df)"
  have "shape_of (conv2d_fixed_padding ?a f 1 1 df) = Inr (image_shape df n h w (nat f))"
    using shape_conv_stride1 [OF a _ f, of 1] by simp
  then have b: "shape_of ?b = Inr (image_shape df n h w (nat f))"
    using shape_batch_norm by simp
  let ?c = "ReLU (batch_norm (conv2d_fixed_padding ?b f 3 1 df) tr df)"
  have "shape_of (conv2d_fixed_padding ?b f 3 1 df) = Inr (image_shape df n h w (nat f))"
    using shape_conv_stride1 [OF b _ f, of 3] by simp
  then have c: "shape_of ?c = Inr (image_shape df n h w (nat f))"
    using shape_batch_norm by simp
  have d: "shape_of (conv2d_fixed_padding ?c (4 * f) 1 1 df) =
      Inr (image_shape df n h w (nat (4 * f)))"
    using shape_conv_stride1 [OF c, of 1 "4 * f"] f by simp
  show ?thesis using x d
    by (simp add: bottleneck_block_v2_def Let_def)
qed

lemma fold_invariant:
  "P a \<Longrightarrow> (\<And>y. P y \<Longrightarrow> P (g y)) \<Longrightarrow> P (fold (\<lambda>_. g) xs a)"
  by (induction xs arbitrary: a) simp_all

lemma shape_block_layer:
  assumes x: "shape_of x = Inr (image_shape df n h w c)" and f: "1 \<le> f" and s: "1 \<le> s"
    and h: "1 \<le> h" and w: "1 \<le> w"
  shows "shape_of (block_layer x f True bottleneck_block_v2 blocks s tr name df) =
           Inr (image_shape df n (strided_extent s h) (strided_extent s w) (nat (4 * f)))"
proof -
  let ?r = "Inr (image_shape df n (strided_extent s h) (strided_extent s w) (nat (4 * f)))"
  let ?first = "bottleneck_block_v2 x f tr (Some (\<lambda>y. conv2d_fixed_padding y (f * 4) 1 s df)) s df"
  have first: "shape_of ?first = ?r"
    by (rule shape_bottleneck_projection [OF x f s h w])
  have "shape_of (fold (\<lambda>_ y. bottleneck_block_v2 y f tr None 1 df) [1..blocks - 1] ?first) = ?r"
  proof (rule fold_invariant [where P = "\<lambda>t. shape_of t = ?r"])
    show "shape_of ?first = ?r" by (rule first)
  next
    fix y assume "shape_of y = ?r"
    then show "shape_of (bottleneck_block_v2 y f tr None 1 df) = ?r"
      using shape_bottleneck_identity [of y df n _ _ f tr] f
        strided_extent_pos [OF s h] strided_extent_pos [OF s w] by simp
  qed
  then show ?thesis by (simp add: block_layer_def Let_def)
qed

lemma shape_stem:
  assumes x: "shape_of x = Inr (image_shape df n h w c)" and h: "1 \<le> h" and w: "1 \<le> w"
  shows "shape_of (resnet_v2_stem x df) =
           Inr (image_shape df n (strided_extent 2 (strided_extent 2 h))
                  (strided_extent 2 (strided_extent 2 w)) 64)"
proof -
  have c: "shape_of (conv2d_fixed_padding x 64 7 2 df) =
      Inr (image_shape df n (strided_extent 2 h) (strided_extent 2 w) 64)"
    using shape_conv [OF x _ _ _ _ h w, of 7 2 64] by simp
  have p: "window_extent SAME 3 2 m = Inr (strided_extent 2 m)" for m
  proof -
    have "(int m + 1) div 2 = (int m - 1) div 2 + 1" by presburger
    then show ?thesis by (simp add: window_extent_def strided_extent_def)
  qed
  show ?thesis using c
    by (simp add: resnet_v2_stem_def Let_def max_pool2d_shape_def spatial_op_image p)
qed

lemma shape_block_layer_outputs:
  assumes x: "shape_of x = Inr (image_shape df n h w c)" and h: "1 \<le> h" and w: "1 \<le> w"
  shows
    "shape_of (block_layer_output x tr df 1) =
       Inr (image_shape df n (strided_extent 2 (strided_extent 2 h))
              (strided_extent 2 (strided_extent 2 w)) 256)"
    "shape_of (block_layer_output x tr df 2) =
       Inr (image_shape df n (strided_extent 2 (strided_extent 2 (strided_extent 2 h)))
              (strided_extent 2 (strided_extent 2 (strided_extent 2 w))) 512)"
    "shape_of (block_layer_output x tr df 3) =
       Inr (image_shape df n
              (strided_extent 2 (strided_extent 2 (strided_extent 2 (strided_extent 2 h))))
              (strided_extent 2 (strided_extent 2 (strided_extent 2 (strided_extent 2 w))))
              1024)"
    "shape_of (block_layer_output x tr df 4) =
       Inr (image_shape df n
              (strided_extent 2 (strided_extent 2 (strided_extent 2 (strided_extent 2
                 (strided_extent 2 h)))))
              (strided_extent 2 (strided_extent 2 (strided_extent 2 (strided_extent 2
                 (strided_extent 2 w)))))
              2048)"
proof -
  note pos = strided_extent_pos [of 2, simplified]
  let ?h2 = "strided_extent 2 (strided_extent 2 h)"
  let ?w2 = "strided_extent 2 (strided_extent 2 w)"
  have h2: "1 \<le> ?h2" and w2: "1 \<le> ?w2" using h w by (simp_all add: pos)
  have s0: "shape_of (resnet_v2_stem x df) = Inr (image_shape df n ?h2 ?w2 64)"
    by (rule shape_stem [OF x h w])
  show s1: "shape_of (block_layer_output x tr df 1) = Inr (image_shape df n ?h2 ?w2 256)"
    using shape_block_layer [OF s0 _ _ h2 w2, of 64 1] h2 w2
    by (simp add: block_layer_output_unfold)
  let ?h3 = "strided_extent 2 ?h2"
  let ?w3 = "strided_extent 2 ?w2"
  have h3: "1 \<le> ?h3" and w3: "1 \<le> ?w3" using h2 w2 by (simp_all add: pos)
  show s2: "shape_of (block_layer_output x tr df 2) = Inr (image_shape df n ?h3 ?w3 512)"
    using shape_block_layer [OF s1 _ _ h2 w2, of 128 2]
    by (simp add: block_layer_output_unfold)
  let ?h4 = "strided_extent 2 ?h3"
  let ?w4 = "strided_extent 2 ?w3"
  have h4: "1 \<le> ?h4" and w4: "1 \<le> ?w4" using h3 w3 by (simp_all add: pos)
  show s3: "shape_of (block_layer_output x tr df 3) = Inr (image_shape df n ?h4 ?w4 1024)"
    using shape_block_layer [OF s2 _ _ h3 w3, of 256 2]
    by (simp add: block_layer_output_unfold)
  show "shape_of (block_layer_output x tr df 4) =
      Inr (image_shape df n (strided_extent 2 ?h4) (strided_extent 2 ?w4) 2048)"
    using shape_block_layer [OF s3 _ _ h4 w4, of 512 2]
    by (simp add: block_layer_output_unfold)
qed

lemma strided_extent_even: "even n \<Longrightarrow> strided_extent 2 n = n div 2"
proof -
  assume "even n"
  then have "(int n - 1) div 2 + 1 = int n div 2" by presburger
  then show ?thesis by (simp add: strided_extent_def nat_div_distrib)
qed

lemma strided_extent_pow2:
  "strided_extent 2 (32 * m) = 16 * m"
  "strided_extent 2 (16 * m) = 8 * m"
  "strided_extent 2 (8 * m) = 4 * m"
  "strided_extent 2 (4 * m) = 2 * m"
  "strided_extent 2 (2 * m) = m"
  by (simp_all add: strided_extent_even)

text \<open>
  Claim C3. For an input of spatial size \<open>H x W\<close>, both positive and divisible
  by 32, the feature maps \<open>C2\<close>, \<open>C3\<close>, \<open>C4\<close>, \<open>C5\<close> have spatial
  sizes \<open>H/4 x W/4\<close>, \<open>H/8 x W/8\<close>, \<open>H/16 x W/16\<close>, \<open>H/32 x W/32\<close>:
  the stem (7 x 7 convolution of stride 2, then 3 x 3 SAME max pool of stride 2) divides
  by 4, stage 1 has stride 1 and stages 2 to 4 each have stride 2.
\<close>

theorem resnet_v2_multi_scale:
  assumes "shape_of inputs = Inr (image_shape df n h w c)"
    and "32 dvd h" and "32 dvd w" and "0 < h" and "0 < w"
  shows "shape_of (resnet_v2_stem inputs df) = Inr (image_shape df n (h div 4) (w div 4) 64) \<and>
    map_option shape_of (resnet_v2 inputs training df ''C2'') =
      Some (Inr (image_shape df n (h div 4) (w div 4) 256)) \<and>
    map_option shape_of (resnet_v2 inputs training df ''C3'') =
      Some (Inr (image_shape df n (h div 8) (w div 8) 512)) \<and>
    map_option shape_of (resnet_v2 inputs training df ''C4'') =
      Some (Inr (image_shape df n (h div 16) (w div 16) 1024)) \<and>
    map_option shape_of (resnet_v2 inputs training df ''C5'') =
      Some (Inr (image_shape df n (h div 32) (w div 32) 2048))"
proof -
  from assms(2) obtain a where a: "h = 32 * a" by (auto simp: dvd_def)
  from assms(3) obtain b where b: "w = 32 * b" by (auto simp: dvd_def)
  have h: "1 \<le> h" and w: "1 \<le> w" using assms(4,5) by simp_all
  have x: "shape_of inputs = Inr (image_shape df n (32 * a) (32 * b) c)"
    using assms(1) by (simp add: a b)
  have h': "1 \<le> 32 * a" and w': "1 \<le> 32 * b" using h w by (simp_all add: a b)
  note outs = shape_block_layer_outputs [OF x h' w', of training,
      unfolded strided_extent_pow2]
  have s0: "shape_of (resnet_v2_stem inputs df) = Inr (image_shape df n (8 * a) (8 * b) 64)"
    using shape_stem [OF x h' w'] by (simp add: strided_extent_pow2)
  have m: "resnet_v2 inputs training df =
      [''C2'' \<mapsto> block_layer_output inputs training df 1,
       ''C3'' \<mapsto> block_layer_output inputs training df 2,
       ''C4'' \<mapsto> block_layer_output inputs training df 3,
       ''C5'' \<mapsto> block_layer_output inputs training df 4]"
    by (simp add: resnet_v2_unfold block_layer_output_unfold Let_def)
  have "map_option shape_of (resnet_v2 inputs training df ''C2'') =
      Some (Inr (image_shape df n (8 * a) (8 * b) 256))"
    using outs(1) by (simp add: m)
  moreover have "map_option shape_of (resnet_v2 inputs training df ''C3'') =
      Some (Inr (image_shape df n (4 * a) (4 * b) 512))"
    using outs(2) by (simp add: m)
  moreover have "map_option shape_of (resnet_v2 inputs training df ''C4'') =
      Some (Inr (image_shape df n (2 * a) (2 * b) 1024))"
    using outs(3) by (simp add: m)
  moreover have "map_option shape_of (resnet_v2 inputs training df ''C5'') =
      Some (Inr (image_shape df n a b 2048))"
    using outs(4) by (simp add: m)
  ultimately show ?thesis using s0 by (simp add: a b)
qed

theorem resnet_v2_multi_scale_witness:
  "map_option shape_of (resnet_v2 (Placeholder [1, 64, 96, 3]) True channels_last ''C2'') =
     Some (Inr [1, 16, 24, 256]) \<and>
   map_option shape_of (resnet_v2 (Placeholder [1, 64, 96, 3]) True channels_last ''C3'') =
     Some (Inr [1, 8, 12, 512]) \<and>
   map_option shape_of (resnet_v2 (Placeholder [1, 64, 96, 3]) True channels_last ''C4'') =
     Some (Inr [1, 4, 6, 1024]) \<and>
   map_option shape_of (resnet_v2 (Placeholder [1, 64, 96, 3]) True channels_last ''C5'') =
     Some (Inr [1, 2, 3, 2048])"
  using resnet_v2_multi_scale [of "Placeholder [1, 64, 96, 3]" channels_last 1 64 96 3 True]
  by (simp add: image_shape_def)

section \<open>Channel counts\<close>

lemma channel_count_image [simp]: "channel_count df (image_shape df n h w c) = Some c"
  by (cases df) (simp_all add: channel_count_def image_shape_def)

lemma then_shape_Inr:
  "then_shape a g = Inr r \<Longrightarrow> \<exists>s. a = Inr s \<and> g s = Inr r"
  by (cases a) simp_all









section \<open>Layer ordering and residual connections\<close>

lemma cpa_refl [simp]: "convs_pre_activated x x"
  by (cases x) simp_all

lemma cpa_trans:
  "convs_pre_activated t y \<Longrightarrow> convs_pre_activated y x \<Longrightarrow> convs_pre_activated t x"
  by (induction t) auto

lemma pre_activated_unpadded: "pre_activated y \<Longrightarrow> pre_activated (unpadded y)"
  by (cases y) simp_all

lemma cpa_conv:
  "pre_activated y \<Longrightarrow> convs_pre_activated y x \<Longrightarrow>
   convs_pre_activated (conv2d_fixed_padding y f k s df) x"
  by (simp add: conv2d_fixed_padding_def fixed_padding_def Let_def pre_activated_unpadded)

lemma cpa_act:
  "convs_pre_activated y x \<Longrightarrow> convs_pre_activated (ReLU (batch_norm y tr df)) x"
  "pre_activated (ReLU (batch_norm y tr df))"
  by (simp_all add: batch_norm_def)

lemma cpa_add:
  "convs_pre_activated a x \<Longrightarrow> convs_pre_activated b x \<Longrightarrow> convs_pre_activated (Add a b) x"
  by simp

lemma bottleneck_layers:
  "bottleneck_block_v2 x f tr ps st df =
     Add (conv2d_fixed_padding
            (ReLU (batch_norm
               (conv2d_fixed_padding
                  (ReLU (batch_norm
                     (conv2d_fixed_padding (ReLU (batch_norm x tr df)) f 1 1 df) tr df))
                  f 3 st df) tr df))
            (4 * f) 1 1 df)
         (case ps of None \<Rightarrow> x | Some p \<Rightarrow> p (ReLU (batch_norm x tr df)))"
  by (simp add: bottleneck_block_v2_def Let_def)

lemma building_layers:
  "building_block_v2 x f tr ps st df =
     Add (conv2d_fixed_padding
            (ReLU (batch_norm
               (conv2d_fixed_padding (ReLU (batch_norm x tr df)) f 3 st df) tr df))
            f 3 1 df)
         (case ps of None \<Rightarrow> x | Some p \<Rightarrow> p (ReLU (batch_norm x tr df)))"
  by (simp add: building_block_v2_def Let_def)

lemma cpa_bottleneck:
  assumes "convs_pre_activated (case ps of None \<Rightarrow> x | Some p \<Rightarrow> p (ReLU (batch_norm x tr df))) x"
  shows "convs_pre_activated (bottleneck_block_v2 x f tr ps st df) x"
  unfolding bottleneck_layers
  by (intro cpa_add cpa_conv cpa_act cpa_refl assms)

lemma cpa_building:
  assumes "convs_pre_activated (case ps of None \<Rightarrow> x | Some p \<Rightarrow> p (ReLU (batch_norm x tr df))) x"
  shows "convs_pre_activated (building_block_v2 x f tr ps st df) x"
  unfolding building_layers
  by (intro cpa_add cpa_conv cpa_act cpa_refl assms)

lemma block_layer_funpow:
  "block_layer x f b fn blocks s tr name df =
     Identity name
       (((\<lambda>y. fn y f tr None 1 df) ^^ nat (blocks - 1))
          (fn x f tr (Some (\<lambda>y. conv2d_fixed_padding y (if b then f * 4 else f) 1 s df)) s df))"
proof -
  have "fold (\<lambda>_. g) xs a = (g ^^ length xs) a" for g :: "tensor \<Rightarrow> tensor" and xs :: "int list" and a
    by (induction xs arbitrary: a) (simp_all add: funpow_swap1)
  then show ?thesis by (simp add: block_layer_def Let_def)
qed

lemma cpa_block_layer:
  assumes "\<And>y ps st. convs_pre_activated
              (case ps of None \<Rightarrow> y | Some p \<Rightarrow> p (ReLU (batch_norm y tr df))) y \<Longrightarrow>
            convs_pre_activated (fn y f tr ps st df) y"
  shows "convs_pre_activated (block_layer x f b fn blocks s tr name df) x"
proof -
  let ?first = "fn x f tr (Some (\<lambda>y. conv2d_fixed_padding y (if b then f * 4 else f) 1 s df)) s df"
  have "convs_pre_activated (fold (\<lambda>_ y. fn y f tr None 1 df) [1..blocks - 1] ?first) x"
  proof (rule fold_invariant [where P = "\<lambda>t. convs_pre_activated t x"])
    show "convs_pre_activated ?first x"
      by (rule assms) (auto intro!: cpa_conv cpa_act)
  next
    fix y assume "convs_pre_activated y x"
    moreover have "convs_pre_activated (fn y f tr None 1 df) y"
      by (rule assms) simp
    ultimately show "convs_pre_activated (fn y f tr None 1 df) x"
      by (rule cpa_trans [rotated])
  qed
  then show ?thesis by (simp add: block_layer_def Let_def)
qed

lemma stem_layers:
  "resnet_v2_stem inputs df =
     Identity ''initial_max_pool''
       (MaxPool2D 3 2 SAME df
          (Identity ''initial_conv''
             (Conv2D 64 7 2 VALID df (ZeroPadding2D (3, 3) df inputs))))"
  by (simp add: resnet_v2_stem_def conv2d_fixed_padding_def fixed_padding_def Let_def)

text \<open>
  Claim C5. Every residual block has the pre-activation order of ResNet v2: each of
  its convolutions reads the ReLU of a batch normalization. The bottleneck block is
  three such triples with kernel sizes 1, 3, 1, the building block two with kernel
  sizes 3, 3; the same holds of every convolution of a block layer and of the whole
  network above the stem. The stem convolution is followed by the max pool only, with
  no batch normalization or activation before the first stage.
\<close>

theorem pre_activation_ordering:
  "bottleneck_block_v2 x f tr ps st df =
     Add (conv2d_fixed_padding
            (ReLU (batch_norm
               (conv2d_fixed_padding
                  (ReLU (batch_norm
                     (conv2d_fixed_padding (ReLU (batch_norm x tr df)) f 1 1 df) tr df))
                  f 3 st df) tr df))
            (4 * f) 1 1 df)
         (case ps of None \<Rightarrow> x | Some p \<Rightarrow> p (ReLU (batch_norm x tr df))) \<and>
   building_block_v2 x f tr ps st df =
     Add (conv2d_fixed_padding
            (ReLU (batch_norm
               (conv2d_fixed_padding (ReLU (batch_norm x tr df)) f 3 st df) tr df))
            f 3 1 df)
         (case ps of None \<Rightarrow> x | Some p \<Rightarrow> p (ReLU (batch_norm x tr df))) \<and>
   convs_pre_activated (bottleneck_block_v2 x f tr None st df) x \<and>
   convs_pre_activated (building_block_v2 x f tr None st df) x \<and>
   convs_pre_activated (block_layer x f b bottleneck_block_v2 blocks s tr name df) x \<and>
   convs_pre_activated (block_layer x f b building_block_v2 blocks s tr name df) x \<and>
   convs_pre_activated (block_layer_output inputs tr df 4) (resnet_v2_stem inputs df) \<and>
   resnet_v2_stem inputs df =
     Identity ''initial_max_pool''
       (MaxPool2D 3 2 SAME df
          (Identity ''initial_conv''
             (Conv2D 64 7 2 VALID df (ZeroPadding2D (3, 3) df inputs)))) \<and>
   block_layer_output inputs tr df 1 =
     block_layer (resnet_v2_stem inputs df) 64 True bottleneck_block_v2 3 1 tr
       ''block_layer1'' df"
proof (intro conjI)
  have bl: "convs_pre_activated (block_layer y g c bottleneck_block_v2 m r tr nm df) y"
    for y g c m r nm
    by (rule cpa_block_layer) (rule cpa_bottleneck)
  show "convs_pre_activated (block_layer x f b bottleneck_block_v2 blocks s tr name df) x"
    by (rule bl)
  show "convs_pre_activated (block_layer_output inputs tr df 4) (resnet_v2_stem inputs df)"
    unfolding block_layer_output_unfold
    by (rule cpa_trans [OF bl cpa_trans [OF bl cpa_trans [OF bl bl]]])
  show "convs_pre_activated (block_layer x f b building_block_v2 blocks s tr name df) x"
    by (rule cpa_block_layer) (rule cpa_building)
  show "convs_pre_activated (bottleneck_block_v2 x f tr None st df) x"
    by (rule cpa_bottleneck) simp
  show "convs_pre_activated (building_block_v2 x f tr None st df) x"
    by (rule cpa_building) simp
  show "block_layer_output inputs tr df 1 =
     block_layer (resnet_v2_stem inputs df) 64 True bottleneck_block_v2 3 1 tr
       ''block_layer1'' df"
    using block_layer_output_unfold(2) [of inputs tr df] by simp
qed (simp_all only: bottleneck_layers building_layers stem_layers)

lemma path_conv2d_fixed_padding:
  "path_convs (conv2d_fixed_padding y f k s df) = path_convs y @ [(f, k, s)]"
  "path_shortcuts (conv2d_fixed_padding y f k s df) = path_shortcuts y"
  "path_end (conv2d_fixed_padding y f k s df) = path_end y"
  by (simp_all add: conv2d_fixed_padding_def fixed_padding_def Let_def)

lemma path_act:
  "path_convs (batch_norm y tr df) = path_convs y"
  "path_shortcuts (batch_norm y tr df) = path_shortcuts y"
  "path_end (batch_norm y tr df) = path_end y"
  by (simp_all add: batch_norm_def)

lemma path_bottleneck:
  "path_convs (bottleneck_block_v2 x f tr ps st df) =
     path_convs x @ [(f, 1, 1), (f, 3, st), (4 * f, 1, 1)]"
  "path_shortcuts (bottleneck_block_v2 x f tr ps st df) =
     path_shortcuts x @ [case ps of None \<Rightarrow> x | Some p \<Rightarrow> p (ReLU (batch_norm x tr df))]"
  "path_end (bottleneck_block_v2 x f tr ps st df) = path_end x"
  by (simp_all add: bottleneck_layers path_conv2d_fixed_padding path_act)

lemma path_building:
  "path_convs (building_block_v2 x f tr ps st df) = path_convs x @ [(f, 3, st), (f, 3, 1)]"
  "path_shortcuts (building_block_v2 x f tr ps st df) =
     path_shortcuts x @ [case ps of None \<Rightarrow> x | Some p \<Rightarrow> p (ReLU (batch_norm x tr df))]"
  "path_end (building_block_v2 x f tr ps st df) = path_end x"
  by (simp_all add: building_layers path_conv2d_fixed_padding path_act)

lemma funpow_path_convs:
  assumes "\<And>y. path_convs (g y) = path_convs y @ blk"
  shows "path_convs ((g ^^ n) t) = path_convs t @ concat (replicate n blk)"
proof (induction n)
  case 0
  then show ?case by simp
next
  case (Suc n)
  have "concat (replicate n blk) @ blk = blk @ concat (replicate n blk)"
    by (induction n) simp_all
  then show ?case using Suc by (simp add: assms)
qed

lemma funpow_path_shortcuts:
  assumes "\<And>y. path_shortcuts (g y) = path_shortcuts y @ [y]"
  shows "path_shortcuts ((g ^^ n) t) = path_shortcuts t @ map (\<lambda>k. (g ^^ k) t) [0..<n]"
  by (induction n) (simp_all add: assms)

lemma funpow_path_end:
  assumes "\<And>y. path_end (g y) = path_end y"
  shows "path_end ((g ^^ n) t) = path_end t"
  by (induction n) (simp_all add: assms)

lemma stage_body_block_layer:
  "stage_body (block_layer x f b fn blocks s tr name df) =
     ((\<lambda>y. fn y f tr None 1 df) ^^ nat (blocks - 1))
       (fn x f tr (Some (\<lambda>y. conv2d_fixed_padding y (if b then f * 4 else f) 1 s df)) s df)"
  by (simp add: block_layer_funpow)

lemma path_block_layer_bottleneck:
  "path_convs (stage_body (block_layer x f b bottleneck_block_v2 blocks s tr name df)) =
     path_convs x @ [(f, 1, 1), (f, 3, s), (4 * f, 1, 1)] @
       concat (replicate (nat (blocks - 1)) [(f, 1, 1), (f, 3, 1), (4 * f, 1, 1)])"
  "path_end (stage_body (block_layer x f b bottleneck_block_v2 blocks s tr name df)) =
     path_end x"
  unfolding stage_body_block_layer
  by (simp_all add: funpow_path_convs [where blk = "[(f, 1, 1), (f, 3, 1), (4 * f, 1, 1)]"]
        funpow_path_end path_bottleneck)

lemma path_block_layer_result:
  "path_convs (block_layer x f b fn blocks s tr name df) = []"
  "path_shortcuts (block_layer x f b fn blocks s tr name df) = []"
  "path_end (block_layer x f b fn blocks s tr name df) =
     block_layer x f b fn blocks s tr name df"
  by (simp_all add: block_layer_def Let_def)

lemma path_stem:
  "path_convs (resnet_v2_stem x df) = []"
  "path_shortcuts (resnet_v2_stem x df) = []"
  "path_end (resnet_v2_stem x df) = resnet_v2_stem x df"
  by (simp_all add: resnet_v2_stem_def Let_def)

lemma shortcuts_block_layer_bottleneck:
  "path_shortcuts (stage_body (block_layer x f b bottleneck_block_v2 blocks s tr name df)) =
     path_shortcuts x @
     [conv2d_fixed_padding (ReLU (batch_norm x tr df)) (if b then f * 4 else f) 1 s df] @
     map (\<lambda>k. ((\<lambda>y. bottleneck_block_v2 y f tr None 1 df) ^^ k)
                (bottleneck_block_v2 x f tr
                   (Some (\<lambda>y. conv2d_fixed_padding y (if b then f * 4 else f) 1 s df)) s df))
         [0..<nat (blocks - 1)]"
  unfolding stage_body_block_layer
  by (subst funpow_path_shortcuts) (simp_all add: path_bottleneck)

lemma shortcuts_block_layer_building:
  "path_shortcuts (stage_body (block_layer x f b building_block_v2 blocks s tr name df)) =
     path_shortcuts x @
     [conv2d_fixed_padding (ReLU (batch_norm x tr df)) (if b then f * 4 else f) 1 s df] @
     map (\<lambda>k. ((\<lambda>y. building_block_v2 y f tr None 1 df) ^^ k)
                (building_block_v2 x f tr
                   (Some (\<lambda>y. conv2d_fixed_padding y (if b then f * 4 else f) 1 s df)) s df))
         [0..<nat (blocks - 1)]"
  unfolding stage_body_block_layer
  by (subst funpow_path_shortcuts) (simp_all add: path_building)

lemma path_block_layer_building:
  "path_convs (stage_body (block_layer x f b building_block_v2 blocks s tr name df)) =
     path_convs x @ [(f, 3, s), (f, 3, 1)] @
       concat (replicate (nat (blocks - 1)) [(f, 3, 1), (f, 3, 1)])"
  unfolding stage_body_block_layer
  by (simp add: funpow_path_convs [where blk = "[(f, 3, 1), (f, 3, 1)]"] path_building)

text \<open>
  Claim C6. Every block returns the sum of its convolutional path (three convolutions
  over the block's input in the bottleneck block, two in the building block) and a
  shortcut. With no projection the shortcut is the block's input itself; with a
  projection it is the projection of the pre-activated input. A block layer is its
  first block, with the layer's stride and the projection, followed by
  \<open>blocks - 1\<close> blocks without projection: the shortcut of each of these is the
  output of the block before it, unmodified, and all its convolutions have stride 1.
  The projection is a 1 x 1 convolution with the layer's stride and \<open>filters_out\<close>
  filters.
\<close>

theorem residual_topology:
  "summands (bottleneck_block_v2 x f tr ps st df) =
     Some (conv2d_fixed_padding
             (ReLU (batch_norm
                (conv2d_fixed_padding
                   (ReLU (batch_norm
                      (conv2d_fixed_padding (ReLU (batch_norm x tr df)) f 1 1 df) tr df))
                   f 3 st df) tr df))
             (4 * f) 1 1 df,
           case ps of None \<Rightarrow> x | Some p \<Rightarrow> p (ReLU (batch_norm x tr df))) \<and>
   summands (building_block_v2 x f tr ps st df) =
     Some (conv2d_fixed_padding
             (ReLU (batch_norm
                (conv2d_fixed_padding (ReLU (batch_norm x tr df)) f 3 st df) tr df))
             f 3 1 df,
           case ps of None \<Rightarrow> x | Some p \<Rightarrow> p (ReLU (batch_norm x tr df))) \<and>
   path_convs (bottleneck_block_v2 x f tr ps st df) =
     path_convs x @ [(f, 1, 1), (f, 3, st), (4 * f, 1, 1)] \<and>
   path_convs (building_block_v2 x f tr ps st df) = path_convs x @ [(f, 3, st), (f, 3, 1)] \<and>
   block_layer x f b fn blocks s tr name df =
     Identity name
       (((\<lambda>y. fn y f tr None 1 df) ^^ nat (blocks - 1))
          (fn x f tr (Some (\<lambda>y. conv2d_fixed_padding y (if b then f * 4 else f) 1 s df)) s df)) \<and>
   path_shortcuts (stage_body (block_layer x f b bottleneck_block_v2 blocks s tr name df)) =
     path_shortcuts x @
     [conv2d_fixed_padding (ReLU (batch_norm x tr df)) (if b then f * 4 else f) 1 s df] @
     map (\<lambda>k. ((\<lambda>y. bottleneck_block_v2 y f tr None 1 df) ^^ k)
                (bottleneck_block_v2 x f tr
                   (Some (\<lambda>y. conv2d_fixed_padding y (if b then f * 4 else f) 1 s df)) s df))
         [0..<nat (blocks - 1)] \<and>
   path_shortcuts (stage_body (block_layer x f b building_block_v2 blocks s tr name df)) =
     path_shortcuts x @
     [conv2d_fixed_padding (ReLU (batch_norm x tr df)) (if b then f * 4 else f) 1 s df] @
     map (\<lambda>k. ((\<lambda>y. building_block_v2 y f tr None 1 df) ^^ k)
                (building_block_v2 x f tr
                   (Some (\<lambda>y. conv2d_fixed_padding y (if b then f * 4 else f) 1 s df)) s df))
         [0..<nat (blocks - 1)] \<and>
   path_convs (stage_body (block_layer x f b bottleneck_block_v2 blocks s tr name df)) =
     path_convs x @ [(f, 1, 1), (f, 3, s), (4 * f, 1, 1)] @
       concat (replicate (nat (blocks - 1)) [(f, 1, 1), (f, 3, 1), (4 * f, 1, 1)]) \<and>
   path_convs (stage_body (block_layer x f b building_block_v2 blocks s tr name df)) =
     path_convs x @ [(f, 3, s), (f, 3, 1)] @
       concat (replicate (nat (blocks - 1)) [(f, 3, 1), (f, 3, 1)]) \<and>
   conv2d_fixed_padding y fo 1 s df =
     Conv2D fo 1 s (if s = 1 then SAME else VALID) df
       (if 1 < s then ZeroPadding2D (0, 0) df y else y)"
proof (intro conjI)
  show "block_layer x f b fn blocks s tr name df =
     Identity name
       (((\<lambda>y. fn y f tr None 1 df) ^^ nat (blocks - 1))
          (fn x f tr (Some (\<lambda>y. conv2d_fixed_padding y (if b then f * 4 else f) 1 s df)) s df))"
    by (rule block_layer_funpow)
  show "conv2d_fixed_padding y fo 1 s df =
     Conv2D fo 1 s (if s = 1 then SAME else VALID) df
       (if 1 < s then ZeroPadding2D (0, 0) df y else y)"
    by (simp add: conv2d_fixed_padding_def fixed_padding_def Let_def)
  show "summands (bottleneck_block_v2 x f tr ps st df) =
     Some (conv2d_fixed_padding
             (ReLU (batch_norm
                (conv2d_fixed_padding
                   (ReLU (batch_norm
                      (conv2d_fixed_padding (ReLU (batch_norm x tr df)) f 1 1 df) tr df))
                   f 3 st df) tr df))
             (4 * f) 1 1 df,
           case ps of None \<Rightarrow> x | Some p \<Rightarrow> p (ReLU (batch_norm x tr df)))"
    by (simp add: bottleneck_layers)
  show "summands (building_block_v2 x f tr ps st df) =
     Some (conv2d_fixed_padding
             (ReLU (batch_norm
                (conv2d_fixed_padding (ReLU (batch_norm x tr df)) f 3 st df) tr df))
             f 3 1 df,
           case ps of None \<Rightarrow> x | Some p \<Rightarrow> p (ReLU (batch_norm x tr df)))"
    by (simp add: building_layers)
qed (rule path_bottleneck path_building shortcuts_block_layer_bottleneck
       shortcuts_block_layer_building path_block_layer_bottleneck path_block_layer_building)+

section \<open>The stages and the returned feature map\<close>

text \<open>
  Claim C2. After the stem \<open>resnet_v2\<close> assembles exactly four stages, each a
  \<open>block_layer\<close> of bottleneck blocks (\<open>block_fn = _bottleneck_block_v2\<close>,
  \<open>bottleneck = True\<close>) whose convolutional path starts at the output of the stage
  before it (the stem for the first). The stages hold 3, 4, 6, 3 residual blocks. Each
  block is the bottleneck triple of a 1 x 1, a 3 x 3 and a 1 x 1 convolution with
  \<open>f\<close>, \<open>f\<close>, \<open>4 f\<close> filters, where \<open>f = 64 * 2^i\<close> in stage \<open>i\<close>
  (64, 128, 256, 512) is the filter count of the stage's first convolution; the 3 x 3
  convolution of the first block has the stage's stride (1, 2, 2, 2), every other
  convolution stride 1: the layout of ResNet-50.
\<close>

theorem resnet_v2_stages:
  "(let c2 = block_layer (resnet_v2_stem inputs df) (64 * 2 ^ 0) True bottleneck_block_v2 3 1
               training ''block_layer1'' df;
        c3 = block_layer c2 (64 * 2 ^ 1) True bottleneck_block_v2 4 2 training
               ''block_layer2'' df;
        c4 = block_layer c3 (64 * 2 ^ 2) True bottleneck_block_v2 6 2 training
               ''block_layer3'' df;
        c5 = block_layer c4 (64 * 2 ^ 3) True bottleneck_block_v2 3 2 training
               ''block_layer4'' df
    in resnet_v2 inputs training df =
         [''C2'' \<mapsto> c2, ''C3'' \<mapsto> c3, ''C4'' \<mapsto> c4, ''C5'' \<mapsto> c5] \<and>
       path_end (stage_body c2) = resnet_v2_stem inputs df \<and>
       path_end (stage_body c3) = c2 \<and>
       path_end (stage_body c4) = c3 \<and>
       path_end (stage_body c5) = c4 \<and>
       length (path_shortcuts (stage_body c2)) = 3 \<and>
       length (path_shortcuts (stage_body c3)) = 4 \<and>
       length (path_shortcuts (stage_body c4)) = 6 \<and>
       length (path_shortcuts (stage_body c5)) = 3 \<and>
       path_convs (stage_body c2) =
         [(64, 1, 1), (64, 3, 1), (256, 1, 1)] @
         concat (replicate 2 [(64, 1, 1), (64, 3, 1), (256, 1, 1)]) \<and>
       path_convs (stage_body c3) =
         [(128, 1, 1), (128, 3, 2), (512, 1, 1)] @
         concat (replicate 3 [(128, 1, 1), (128, 3, 1), (512, 1, 1)]) \<and>
       path_convs (stage_body c4) =
         [(256, 1, 1), (256, 3, 2), (1024, 1, 1)] @
         concat (replicate 5 [(256, 1, 1), (256, 3, 1), (1024, 1, 1)]) \<and>
       path_convs (stage_body c5) =
         [(512, 1, 1), (512, 3, 2), (2048, 1, 1)] @
         concat (replicate 2 [(512, 1, 1), (512, 3, 1), (2048, 1, 1)]))"
  unfolding Let_def
proof (intro conjI)
  show "resnet_v2 inputs training df =
      [''C2'' \<mapsto> block_layer (resnet_v2_stem inputs df) (64 * 2 ^ 0) True bottleneck_block_v2 3 1
                 training ''block_layer1'' df,
       ''C3'' \<mapsto> block_layer (block_layer (resnet_v2_stem inputs df) (64 * 2 ^ 0) True
                 bottleneck_block_v2 3 1 training ''block_layer1'' df) (64 * 2 ^ 1) True
                 bottleneck_block_v2 4 2 training ''block_layer2'' df,
       ''C4'' \<mapsto> block_layer (block_layer (block_layer (resnet_v2_stem inputs df) (64 * 2 ^ 0)
                 True bottleneck_block_v2 3 1 training ''block_layer1'' df) (64 * 2 ^ 1) True
                 bottleneck_block_v2 4 2 training ''block_layer2'' df) (64 * 2 ^ 2) True
                 bottleneck_block_v2 6 2 training ''block_layer3'' df,
       ''C5'' \<mapsto> block_layer (block_layer (block_layer (block_layer (resnet_v2_stem inputs df)
                 (64 * 2 ^ 0) True bottleneck_block_v2 3 1 training ''block_layer1'' df)
                 (64 * 2 ^ 1) True bottleneck_block_v2 4 2 training ''block_layer2'' df)
                 (64 * 2 ^ 2) True bottleneck_block_v2 6 2 training ''block_layer3'' df)
                 (64 * 2 ^ 3) True bottleneck_block_v2 3 2 training ''block_layer4'' df]"
    by (simp add: resnet_v2_unfold Let_def)
qed (simp_all add: path_block_layer_bottleneck shortcuts_block_layer_bottleneck
       path_block_layer_result path_stem)

lemma resnet_v2_call_unfold:
  "resnet_v2_call inputs training df =
     then_shape (shape_of (block_layer_output inputs training df 4))
       (\<lambda>_. Inr (resnet_v2 inputs training df))"
  by (simp add: resnet_v2_call_def resnet_v2_def block_layer_output_def case_prod_beta Let_def)

lemma shape_conv_error:
  "shape_of y = Inl e \<Longrightarrow> shape_of (conv2d_fixed_padding y f k s df) = Inl e"
  by (simp add: conv2d_fixed_padding_def fixed_padding_def Let_def)

lemma shape_bottleneck_error:
  "shape_of y = Inl e \<Longrightarrow> shape_of (bottleneck_block_v2 y f tr ps st df) = Inl e"
  by (simp add: bottleneck_layers shape_conv_error batch_norm_def)

lemma shape_block_layer_error:
  assumes "shape_of x = Inl e"
  shows "shape_of (block_layer x f b bottleneck_block_v2 blocks s tr name df) = Inl e"
proof -
  have "shape_of (fold (\<lambda>_ y. bottleneck_block_v2 y f tr None 1 df) [1..blocks - 1]
      (bottleneck_block_v2 x f tr
         (Some (\<lambda>y. conv2d_fixed_padding y (if b then f * 4 else f) 1 s df)) s df)) = Inl e"
    by (rule fold_invariant [where P = "\<lambda>t. shape_of t = Inl e"])
      (simp_all add: shape_bottleneck_error assms)
  then show ?thesis by (simp add: block_layer_def Let_def)
qed

lemma shape_stem_not_batch:
  "shape_of (resnet_v2_stem (Placeholder [7]) df) = Inl Rank_error"
  by (simp add: stem_layers zero_padding2d_shape_def spatial_op_def)

lemma resnet_v2_call_not_batch:
  "resnet_v2_call (Placeholder [7]) training df = Inl Rank_error"
  by (simp add: resnet_v2_call_unfold block_layer_output_unfold shape_block_layer_error
        shape_stem_not_batch)

text \<open>
  Claim C1. For every batch of images of positive height and width, whatever the
  training flag, the call of \<open>resnet_v2\<close> returns; and whenever a call returns,
  it returns a mapping whose keys are exactly \<open>C2\<close>, \<open>C3\<close>, \<open>C4\<close>,
  \<open>C5\<close>, where \<open>'C%d' % (i + 2)\<close> holds the output of block layer
  \<open>i + 1\<close>, the tensor named \<open>block_layer(i + 1)\<close>, each layer reading the
  output of the one before. The result is this mapping, not a single tensor. An input
  that is not a batch of images, such as a vector, makes the framework refuse the first
  layer.
\<close>

theorem resnet_v2_call_feature_map:
  "(shape_of inputs = Inr (image_shape df n h w c) \<and> 1 \<le> h \<and> 1 \<le> w \<longrightarrow>
      \<not> isl (resnet_v2_call inputs training df)) \<and>
   (resnet_v2_call inputs training df = Inr m \<longrightarrow>
      (let l1 = block_layer (resnet_v2_stem inputs df) 64 True bottleneck_block_v2 3 1
                  training (''block_layer'' @ str_nat 1) df;
           l2 = block_layer l1 128 True bottleneck_block_v2 4 2 training
                  (''block_layer'' @ str_nat 2) df;
           l3 = block_layer l2 256 True bottleneck_block_v2 6 2 training
                  (''block_layer'' @ str_nat 3) df;
           l4 = block_layer l3 512 True bottleneck_block_v2 3 2 training
                  (''block_layer'' @ str_nat 4) df
       in dom m = {''C2'', ''C3'', ''C4'', ''C5''} \<and>
          m (''C'' @ str_nat 2) = Some l1 \<and>
          m (''C'' @ str_nat 3) = Some l2 \<and>
          m (''C'' @ str_nat 4) = Some l3 \<and>
          m (''C'' @ str_nat 5) = Some l4 \<and>
          tensor_name l1 = Some ''block_layer1'' \<and>
          tensor_name l2 = Some ''block_layer2'' \<and>
          tensor_name l3 = Some ''block_layer3'' \<and>
          tensor_name l4 = Some ''block_layer4'')) \<and>
   resnet_v2_call (Placeholder [7]) training df = Inl Rank_error"
proof (intro conjI impI)
  assume a: "shape_of inputs = Inr (image_shape df n h w c) \<and> 1 \<le> h \<and> 1 \<le> w"
  then show "\<not> isl (resnet_v2_call inputs training df)"
    using shape_block_layer_outputs(4) [of inputs df n h w c training]
    by (simp add: resnet_v2_call_unfold)
next
  assume "resnet_v2_call inputs training df = Inr m"
  then have m: "m = resnet_v2 inputs training df"
    by (auto simp: resnet_v2_call_unfold dest!: then_shape_Inr)
  show "let l1 = block_layer (resnet_v2_stem inputs df) 64 True bottleneck_block_v2 3 1
                  training (''block_layer'' @ str_nat 1) df;
           l2 = block_layer l1 128 True bottleneck_block_v2 4 2 training
                  (''block_layer'' @ str_nat 2) df;
           l3 = block_layer l2 256 True bottleneck_block_v2 6 2 training
                  (''block_layer'' @ str_nat 3) df;
           l4 = block_layer l3 512 True bottleneck_block_v2 3 2 training
                  (''block_layer'' @ str_nat 4) df
       in dom m = {''C2'', ''C3'', ''C4'', ''C5''} \<and>
          m (''C'' @ str_nat 2) = Some l1 \<and>
          m (''C'' @ str_nat 3) = Some l2 \<and>
          m (''C'' @ str_nat 4) = Some l3 \<and>
          m (''C'' @ str_nat 5) = Some l4 \<and>
          tensor_name l1 = Some ''block_layer1'' \<and>
          tensor_name l2 = Some ''block_layer2'' \<and>
          tensor_name l3 = Some ''block_layer3'' \<and>
          tensor_name l4 = Some ''block_layer4''"
    unfolding m
    by (auto simp add: resnet_v2_unfold block_layer_name str_nat_num str_nat_Suc Let_def)
next
  show "resnet_v2_call (Placeholder [7]) training df = Inl Rank_error"
    by (rule resnet_v2_call_not_batch)
qed

theorem resnet_v2_call_feature_map_witness:
  "resnet_v2_call (Placeholder [1, 32, 32, 3]) True channels_last =
     Inr (resnet_v2 (Placeholder [1, 32, 32, 3]) True channels_last) \<and>
   dom (resnet_v2 (Placeholder [1, 32, 32, 3]) True channels_last) =
     {''C2'', ''C3'', ''C4'', ''C5''} \<and>
   resnet_v2_call (Placeholder [7]) True channels_last = Inl Rank_error"
proof -
  let ?x = "Placeholder [1, 32, 32, 3]"
  have "shape_of ?x = Inr (image_shape channels_last 1 32 32 3)"
    by (simp add: image_shape_def)
  from shape_block_layer_outputs(4) [OF this, of True]
  have r: "resnet_v2_call ?x True channels_last = Inr (resnet_v2 ?x True channels_last)"
    by (simp add: resnet_v2_call_unfold)
  show ?thesis
    using r resnet_v2_call_feature_map
      [of ?x channels_last 1 32 32 3 True "resnet_v2 ?x True channels_last"]
    by (simp add: Let_def)
qed

end
